theory Spec2Isabelle
  imports Main "HOL-Library.Word"
begin

unbundle bit_operations_syntax

section \<open>The expression IR, as the error ledger sees it\<close>

text \<open>
  The expression representation is not part of the two source files; the ledger only
  inspects the kind of a node, takes its children, asks its width and builds new nodes.
  Nodes are modelled as a datatype. An \<open>Array\<close> pointer is identified with the array it
  points to (name and size): the array caches hand out one object per such pair.
  A constant carries its width and its value as read by \<open>getZExtValue\<close> (64 bits).
  A read carries \<open>updates.root\<close>, \<open>updates.head\<close> (an address, \<open>None\<close> for the null
  pointer) and the index.
\<close>

type_synonym Width = nat

datatype Array = Array (name: string) (array_size: nat)

datatype Expr =
    ConstantExpr Width "64 word"
  | ReadExpr Array "nat option" Expr
  | ConcatExpr Expr Expr
  | SExtExpr Expr Width
  | ZExtExpr Expr Width
  | ExtractExpr Expr nat Width
  | AddExpr Expr Expr
  | SubExpr Expr Expr
  | MulExpr Expr Expr
  | UDivExpr Expr Expr
  | SDivExpr Expr Expr

text \<open>
  The node builders (\<open>X::create\<close>) and \<open>getWidth\<close> live outside the two source files
  and may simplify what they build, so the ledger is modelled over any implementation of
  them.
\<close>

record ExprBuilder =
  getWidth :: "Expr \<Rightarrow> Width"
  ReadExpr_create :: "Array \<Rightarrow> nat option \<Rightarrow> Expr \<Rightarrow> Expr"
  ZExtExpr_create :: "Expr \<Rightarrow> Width \<Rightarrow> Expr"
  AddExpr_create :: "Expr \<Rightarrow> Expr \<Rightarrow> Expr"
  MulExpr_create :: "Expr \<Rightarrow> Expr \<Rightarrow> Expr"
  UDivExpr_create :: "Expr \<Rightarrow> Expr \<Rightarrow> Expr"

text \<open>
  A stand-in builder for concrete runs: it allocates every node as asked, without
  simplifying, and widths are the structural ones (a read yields one byte).
\<close>

fun allocWidth :: "Expr \<Rightarrow> Width" where
  "allocWidth (ConstantExpr w v) = w"
| "allocWidth (ReadExpr root uhead idx) = 8"
| "allocWidth (ConcatExpr l r) = allocWidth l + allocWidth r"
| "allocWidth (SExtExpr e w) = w"
| "allocWidth (ZExtExpr e w) = w"
| "allocWidth (ExtractExpr e off w) = w"
| "allocWidth (AddExpr l r) = allocWidth l"
| "allocWidth (SubExpr l r) = allocWidth l"
| "allocWidth (MulExpr l r) = allocWidth l"
| "allocWidth (UDivExpr l r) = allocWidth l"
| "allocWidth (SDivExpr l r) = allocWidth l"

definition allocBuilder :: ExprBuilder where
  "allocBuilder =
     \<lparr> getWidth = allocWidth, ReadExpr_create = ReadExpr, ZExtExpr_create = ZExtExpr,
       AddExpr_create = AddExpr, MulExpr_create = MulExpr, UDivExpr_create = UDivExpr \<rparr>"

section \<open>The error ledger (SymbolicError.cpp)\<close>

text \<open>
  An \<open>llvm::Value *\<close> is an address; \<open>0\<close> is the null pointer. A \<open>ref<Expr>\<close> is
  \<open>Expr option\<close>, \<open>None\<close> being the null reference. Every function that can stop the
  process returns a sum: \<open>Inl\<close> for a failed \<open>assert\<close> (with its message), a null
  pointer dereference, an index out of range and \<open>abort()\<close>, \<open>Inr\<close> for a return. The
  maps are \<open>std::map\<close>s; \<open>arrayErrorArrayMap\<close> and \<open>storedError\<close> never keep a null
  entry, \<open>valueErrorMap\<close> can (a read through \<open>operator[]\<close> inserts one).
\<close>

type_synonym Value = nat

datatype Opcode = Add | Sub | Mul | UDiv | SDiv | OtherOpcode nat

record Instruction =
  inst :: Value
  getOpcode :: Opcode
  operands :: "Value list"

datatype Fatal =
    AssertionFailed string
  | NullDereference
  | OutOfRange
  | Aborted

record SymbolicError =
  valueErrorMap :: "Value \<rightharpoonup> Expr option"
  arrayErrorArrayMap :: "Array \<rightharpoonup> Array"
  errorArrayCache :: "Array list"
  storedError :: "64 word \<rightharpoonup> Expr"

text \<open>
  Modelled from the spec: \<open>ArrayCache::CreateArray\<close>, which is not in the source files
  (the ledger creates error arrays at run time, one array object per name and size).
\<close>

definition CreateArray :: "Array list \<Rightarrow> string \<Rightarrow> nat \<Rightarrow> Array \<times> Array list" where
  "CreateArray cache nm sz =
     (let a = Array nm sz in (a, if a \<in> set cache then cache else cache @ [a]))"

text \<open>
  \<open>valueErrorMap[value]\<close> read through \<open>operator[]\<close>: an absent key is inserted with a
  null reference. \<open>getError\<close> does so only when \<open>value\<close> is not null, and returns at
  once when the entry is not null.
\<close>

definition cachedError :: "SymbolicError \<Rightarrow> Value \<Rightarrow> Expr option \<times> SymbolicError" where
  "cachedError s v =
     (if v \<noteq> 0 then
        (case valueErrorMap s v of
           Some errorAmount \<Rightarrow> (errorAmount, s)
         | None \<Rightarrow> (None, s\<lparr>valueErrorMap := (valueErrorMap s)(v \<mapsto> None)\<rparr>))
      else (None, s))"

text \<open>The end of \<open>getError\<close>: \<open>if (value) valueErrorMap[value] = ret; return ret\<close>.\<close>

definition memoError ::
  "Value \<Rightarrow> Fatal + (Expr \<times> SymbolicError) \<Rightarrow> Fatal + (Expr \<times> SymbolicError)" where
  "memoError v r =
     (case r of
        Inl f \<Rightarrow> Inl f
      | Inr (ret, s) \<Rightarrow>
          Inr (ret, if v \<noteq> 0 then s\<lparr>valueErrorMap := (valueErrorMap s)(v \<mapsto> Some ret)\<rparr>
                    else s))"

text \<open>
  The body shared by the \<open>ConcatExpr\<close> and \<open>ReadExpr\<close> branches of \<open>getError\<close>, for the
  root array of the read.
\<close>

definition unspecifiedError ::
  "ExprBuilder \<Rightarrow> SymbolicError \<Rightarrow> Array \<Rightarrow> Expr \<times> SymbolicError" where
  "unspecifiedError ir s arr =
     (case arrayErrorArrayMap s arr of
        None \<Rightarrow>
          (let errorName = ''_unspecified_error_'' @ name arr;
               (newErrorArray, cache') = CreateArray (errorArrayCache s) errorName 8
           in (ReadExpr_create ir newErrorArray None (ConstantExpr 8 0),
               s\<lparr>errorArrayCache := cache',
                 arrayErrorArrayMap := (arrayErrorArrayMap s)(arr \<mapsto> newErrorArray)\<rparr>))
      | Some errorArray \<Rightarrow>
          (ReadExpr_create ir errorArray None (ConstantExpr 8 0), s))"

fun getError ::
  "ExprBuilder \<Rightarrow> SymbolicError \<Rightarrow> Expr \<Rightarrow> Value \<Rightarrow> Fatal + (Expr \<times> SymbolicError)" where
  "getError ir s (ConcatExpr l r) v =
     (case cachedError s v of
        (Some errorAmount, s0) \<Rightarrow> Inr (errorAmount, s0)
      | (None, s0) \<Rightarrow>
          memoError v
            (case l of
               ReadExpr root uhead idx \<Rightarrow> Inr (unspecifiedError ir s0 root)
             | _ \<Rightarrow> Inl NullDereference))"
| "getError ir s (ReadExpr root uhead idx) v =
     (case cachedError s v of
        (Some errorAmount, s0) \<Rightarrow> Inr (errorAmount, s0)
      | (None, s0) \<Rightarrow> memoError v (Inr (unspecifiedError ir s0 root)))"
| "getError ir s (SExtExpr kid w) v =
     (case cachedError s v of
        (Some errorAmount, s0) \<Rightarrow> Inr (errorAmount, s0)
      | (None, s0) \<Rightarrow> memoError v (getError ir s0 kid 0))"
| "getError ir s (AddExpr l r) v =
     (case cachedError s v of
        (Some errorAmount, s0) \<Rightarrow> Inr (errorAmount, s0)
      | (None, s0) \<Rightarrow>
          memoError v
            (case getError ir s0 l 0 of
               Inl f \<Rightarrow> Inl f
             | Inr (lhsError, s1) \<Rightarrow>
                 (case getError ir s1 r 0 of
                    Inl f \<Rightarrow> Inl f
                  | Inr (rhsError, s2) \<Rightarrow> Inr (AddExpr_create ir lhsError rhsError, s2))))"
| "getError ir s (ConstantExpr w c) v =
     (case cachedError s v of
        (Some errorAmount, s0) \<Rightarrow> Inr (errorAmount, s0)
      | (None, s0) \<Rightarrow> memoError v (Inr (ConstantExpr 8 0, s0)))"
| "getError ir s e v =
     (case cachedError s v of
        (Some errorAmount, s0) \<Rightarrow> Inr (errorAmount, s0)
      | (None, s0) \<Rightarrow> Inl (AssertionFailed ''malformed expression''))"

text \<open>\<open>instr->getOperand(i)\<close> and \<open>arguments[i]\<close>; an index out of range is fatal.\<close>

definition getOperand :: "Instruction \<Rightarrow> nat \<Rightarrow> Fatal + Value" where
  "getOperand instr i =
     (if i < length (operands instr) then Inr (operands instr ! i) else Inl OutOfRange)"

definition argument :: "Expr list \<Rightarrow> nat \<Rightarrow> Fatal + Expr" where
  "argument arguments i =
     (if i < length arguments then Inr (arguments ! i) else Inl OutOfRange)"

text \<open>
  The block that opens each of the five arithmetic cases of \<open>propagateError\<close>: the two
  operands' errors, each passed through \<open>ZExtExpr::create\<close> when its width differs from
  the operand's.
\<close>

definition extendedErrors ::
  "ExprBuilder \<Rightarrow> SymbolicError \<Rightarrow> Instruction \<Rightarrow> Expr list \<Rightarrow>
   Fatal + (Expr \<times> Expr \<times> Expr \<times> Expr \<times> SymbolicError)" where
  "extendedErrors ir s instr arguments =
     (case getOperand instr 0 of Inl f \<Rightarrow> Inl f | Inr lOp \<Rightarrow>
     (case getOperand instr 1 of Inl f \<Rightarrow> Inl f | Inr rOp \<Rightarrow>
     (case argument arguments 0 of Inl f \<Rightarrow> Inl f | Inr a0 \<Rightarrow>
     (case getError ir s a0 lOp of Inl f \<Rightarrow> Inl f | Inr (lError, s1) \<Rightarrow>
     (case argument arguments 1 of Inl f \<Rightarrow> Inl f | Inr a1 \<Rightarrow>
     (case getError ir s1 a1 rOp of Inl f \<Rightarrow> Inl f | Inr (rError, s2) \<Rightarrow>
        (let extendedLeft =
               (if getWidth ir lError \<noteq> getWidth ir a0
                then ZExtExpr_create ir lError (getWidth ir a0) else lError);
             extendedRight =
               (if getWidth ir rError \<noteq> getWidth ir a1
                then ZExtExpr_create ir rError (getWidth ir a1) else rError)
         in Inr (extendedLeft, a0, extendedRight, a1, s2))))))))"

text \<open>The loop of the default case: the error of the first operand found in the map.\<close>

fun firstOperandError ::
  "SymbolicError \<Rightarrow> Instruction \<Rightarrow> nat list \<Rightarrow> Expr option \<Rightarrow> Fatal + Expr option" where
  "firstOperandError s instr [] error = Inr error"
| "firstOperandError s instr (i # rest) error =
     (case getOperand instr i of
        Inl f \<Rightarrow> Inl f
      | Inr v \<Rightarrow>
          (case valueErrorMap s v of
             Some found \<Rightarrow> Inr found
           | None \<Rightarrow> firstOperandError s instr rest error))"

definition setValueError :: "SymbolicError \<Rightarrow> Value \<Rightarrow> Expr option \<Rightarrow> SymbolicError" where
  "setValueError s v e = s\<lparr>valueErrorMap := (valueErrorMap s)(v \<mapsto> e)\<rparr>"

definition propagateError ::
  "ExprBuilder \<Rightarrow> SymbolicError \<Rightarrow> Instruction \<Rightarrow> Expr \<Rightarrow> Expr list \<Rightarrow>
   Fatal + (Expr option \<times> SymbolicError)" where
  "propagateError ir s instr result arguments =
     (case getOpcode instr of
        Add \<Rightarrow>
          (case extendedErrors ir s instr arguments of
             Inl f \<Rightarrow> Inl f
           | Inr (extendedLeft, a0, extendedRight, a1, s2) \<Rightarrow>
               (let errorLeft = MulExpr_create ir extendedLeft a0;
                    errorRight = MulExpr_create ir extendedRight a1;
                    resultError = AddExpr_create ir errorLeft errorRight;
                    result' =
                      (case result of
                         ConstantExpr w c \<Rightarrow>
                           if c \<noteq> 0 then UDivExpr_create ir resultError result else result
                       | _ \<Rightarrow> result)
                in Inr (Some result', setValueError s2 (inst instr) (Some result'))))
      | Sub \<Rightarrow>
          (case extendedErrors ir s instr arguments of
             Inl f \<Rightarrow> Inl f
           | Inr (extendedLeft, a0, extendedRight, a1, s2) \<Rightarrow>
               (let errorLeft = MulExpr_create ir extendedLeft a0;
                    errorRight = MulExpr_create ir extendedRight a1;
                    resultError = AddExpr_create ir errorLeft errorRight;
                    stored = UDivExpr_create ir resultError result
                in Inr (Some stored, setValueError s2 (inst instr) (Some stored))))
      | Mul \<Rightarrow>
          (case extendedErrors ir s instr arguments of
             Inl f \<Rightarrow> Inl f
           | Inr (extendedLeft, a0, extendedRight, a1, s2) \<Rightarrow>
               (let stored = AddExpr_create ir extendedLeft extendedRight
                in Inr (Some stored, setValueError s2 (inst instr) (Some stored))))
      | UDiv \<Rightarrow>
          (case extendedErrors ir s instr arguments of
             Inl f \<Rightarrow> Inl f
           | Inr (extendedLeft, a0, extendedRight, a1, s2) \<Rightarrow>
               (let stored = AddExpr_create ir extendedLeft extendedRight
                in Inr (Some stored, setValueError s2 (inst instr) (Some stored))))
      | SDiv \<Rightarrow>
          (case extendedErrors ir s instr arguments of
             Inl f \<Rightarrow> Inl f
           | Inr (extendedLeft, a0, extendedRight, a1, s2) \<Rightarrow>
               (let stored = AddExpr_create ir extendedLeft extendedRight
                in Inr (Some stored, setValueError s2 (inst instr) (Some stored))))
      | OtherOpcode n \<Rightarrow>
          (case firstOperandError s instr [0..<length arguments]
                  (Some (ConstantExpr 8 0)) of
             Inl f \<Rightarrow> Inl f
           | Inr error \<Rightarrow> Inr (error, setValueError s (inst instr) error)))"

definition executeStore :: "SymbolicError \<Rightarrow> Expr \<Rightarrow> Expr option \<Rightarrow> Fatal + SymbolicError" where
  "executeStore s address error =
     (case error of
        None \<Rightarrow> Inr s
      | Some e \<Rightarrow>
          (case address of
             ConstantExpr w cp \<Rightarrow> Inr (s\<lparr>storedError := (storedError s)(cp \<mapsto> e)\<rparr>)
           | _ \<Rightarrow> Inl (AssertionFailed ''non-constant address'')))"

definition executeLoad ::
  "SymbolicError \<Rightarrow> Value \<Rightarrow> Expr \<Rightarrow> Fatal + (Expr \<times> SymbolicError)" where
  "executeLoad s v address =
     (case address of
        ConstantExpr w cp \<Rightarrow>
          (let error = (case storedError s cp of Some e \<Rightarrow> e | None \<Rightarrow> ConstantExpr 8 0)
           in Inr (error, setValueError s v (Some error)))
      | _ \<Rightarrow> Inl (AssertionFailed ''non-constant address''))"

definition emptyLedger :: SymbolicError where
  "emptyLedger =
     \<lparr> valueErrorMap = Map.empty, arrayErrorArrayMap = Map.empty,
       errorArrayCache = [], storedError = Map.empty \<rparr>"

section \<open>The solver front end (Z3ErrorSolver.cpp)\<close>

text \<open>
  The backend is an interface: the terms the code hands to it are a datatype, and what it
  answers is a record of functions, so that every theorem holds for any backend and a
  fake one can be plugged in. A solver object is what has been asserted into it; an
  optimizer object also holds its objectives. A C \<open>int\<close> is a \<open>32 word\<close> read as two's
  complement, a \<open>double\<close> is its 64-bit pattern, and the two floating-point operations
  the code uses are an interface too.
\<close>

datatype Z3_ast =
    construct Expr
  | Z3_mk_not Z3_ast
  | buildReal string
  | getInitialRead Array nat
  | Z3_value nat

datatype Z3_lbool = Z3_L_FALSE | Z3_L_UNDEF | Z3_L_TRUE

datatype Z3_ast_kind =
    Z3_NUMERAL_AST | Z3_APP_AST | Z3_VAR_AST | Z3_QUANTIFIER_AST | Z3_SORT_AST
  | Z3_FUNC_DECL_AST | Z3_UNKNOWN_AST

datatype SolverRunStatus =
    SOLVER_RUN_STATUS_SUCCESS_SOLVABLE
  | SOLVER_RUN_STATUS_SUCCESS_UNSOLVABLE
  | SOLVER_RUN_STATUS_FAILURE
  | SOLVER_RUN_STATUS_TIMEOUT

record Z3_solver =
  solver_assertions :: "Z3_ast list"

record Z3_optimize =
  optimize_assertions :: "Z3_ast list"
  optimize_objectives :: "Z3_ast list"

type_synonym Z3_model = nat

record Z3 =
  Z3_solver_check :: "Z3_solver \<Rightarrow> Z3_lbool"
  Z3_solver_get_reason_unknown :: "Z3_solver \<Rightarrow> string"
  Z3_solver_get_model :: "Z3_solver \<Rightarrow> Z3_model option"
  Z3_model_eval :: "Z3_model \<Rightarrow> Z3_ast \<Rightarrow> Z3_ast option"
  Z3_get_ast_kind :: "Z3_ast \<Rightarrow> Z3_ast_kind"
  Z3_get_numeral_int :: "Z3_ast \<Rightarrow> 32 word option"
  Z3_get_numerator :: "Z3_ast \<Rightarrow> Z3_ast"
  Z3_get_denominator :: "Z3_ast \<Rightarrow> Z3_ast"
  Z3_optimize_check :: "Z3_optimize \<Rightarrow> Z3_lbool"
  Z3_optimize_get_reason_unknown :: "Z3_optimize \<Rightarrow> string"
  Z3_optimize_get_upper_as_vector :: "Z3_optimize \<Rightarrow> nat \<Rightarrow> Z3_ast list"

record FloatOps =
  int_to_double :: "32 word \<Rightarrow> 64 word"
  double_div :: "64 word \<Rightarrow> 64 word \<Rightarrow> 64 word"

record Query =
  constraints :: "Expr list"
  expr :: Expr

record Stats =
  queries :: nat
  queryCounterexamples :: nat
  queriesValid :: nat
  queriesInvalid :: nat

record Z3ErrorSolverImpl =
  runStatusCode :: SolverRunStatus
  stats :: Stats

text \<open>
  The two byte loops of \<open>handleSolverResponse\<close>: eight times, push the low byte and
  shift right by 8. On the \<open>int\<close> the shift is arithmetic, on the \<open>uint64_t\<close> logical.
\<close>

fun intBytes :: "nat \<Rightarrow> 32 word \<Rightarrow> 8 word list" where
  "intBytes 0 arrayElementValue = []"
| "intBytes (Suc n) arrayElementValue =
     ucast (arrayElementValue AND 255) # intBytes n (signed_drop_bit 8 arrayElementValue)"

fun uint64Bytes :: "nat \<Rightarrow> 64 word \<Rightarrow> 8 word list" where
  "uint64Bytes 0 intResult = []"
| "uint64Bytes (Suc n) intResult =
     ucast (intResult AND 255) # uint64Bytes n (drop_bit 8 intResult)"

text \<open>
  The fallback both handlers share when \<open>Z3_get_numeral_int\<close> fails on the numeral:
  numerator and denominator as ints, then the quotient of their doubles.
\<close>

definition rationalResult :: "Z3 \<Rightarrow> FloatOps \<Rightarrow> Z3_ast \<Rightarrow> Fatal + 64 word" where
  "rationalResult z3 fp rational =
     (case (Z3_get_numeral_int z3 (Z3_get_numerator z3 rational),
            Z3_get_numeral_int z3 (Z3_get_denominator z3 rational)) of
        (Some numerator, Some denominator) \<Rightarrow>
          Inr (double_div fp (int_to_double fp numerator) (int_to_double fp denominator))
      | _ \<Rightarrow> Inl (AssertionFailed ''failed to get value back''))"

text \<open>The body of the loop over \<open>objects\<close> in \<open>handleSolverResponse\<close>: one array's \<open>data\<close>.\<close>

definition arrayData :: "Z3 \<Rightarrow> FloatOps \<Rightarrow> Z3_model \<Rightarrow> Array \<Rightarrow> Fatal + 8 word list" where
  "arrayData z3 fp theModel array =
     (case Z3_model_eval z3 theModel (getInitialRead array 0) of
        None \<Rightarrow> Inl (AssertionFailed ''Failed to evaluate model'')
      | Some arrayElementExpr \<Rightarrow>
          if Z3_get_ast_kind z3 arrayElementExpr \<noteq> Z3_NUMERAL_AST
          then Inl (AssertionFailed ''Evaluated expression has wrong sort'')
          else
            (case Z3_get_numeral_int z3 arrayElementExpr of
               Some arrayElementValue \<Rightarrow> Inr (intBytes 8 arrayElementValue)
             | None \<Rightarrow>
                 (case rationalResult z3 fp arrayElementExpr of
                    Inl f \<Rightarrow> Inl f
                  | Inr result \<Rightarrow> Inr (uint64Bytes 8 result))))"

fun solverValues ::
  "Z3 \<Rightarrow> FloatOps \<Rightarrow> Z3_model \<Rightarrow> Array list \<Rightarrow> 8 word list list \<Rightarrow>
   Fatal + 8 word list list" where
  "solverValues z3 fp theModel [] values = Inr values"
| "solverValues z3 fp theModel (array # rest) values =
     (case arrayData z3 fp theModel array of
        Inl f \<Rightarrow> Inl f
      | Inr data \<Rightarrow> solverValues z3 fp theModel rest (values @ [data]))"

text \<open>
  The text of a \<open>Z3_L_UNDEF\<close> answer, the same in both handlers. \<open>hasSolution\<close> is a
  reference parameter: it goes in and comes out, and this branch leaves it as it was.
\<close>

definition undefStatus :: "string \<Rightarrow> Fatal + SolverRunStatus" where
  "undefStatus reason =
     (if reason = ''timeout'' \<or> reason = ''canceled'' then Inr SOLVER_RUN_STATUS_TIMEOUT
      else if reason = ''unknown'' then Inr SOLVER_RUN_STATUS_FAILURE
      else Inl Aborted)"

definition handleSolverResponse ::
  "Z3 \<Rightarrow> FloatOps \<Rightarrow> Z3_solver \<Rightarrow> Z3_lbool \<Rightarrow> Array list option \<Rightarrow>
   8 word list list option \<Rightarrow> bool \<Rightarrow>
   Fatal + (SolverRunStatus \<times> 8 word list list option \<times> bool)" where
  "handleSolverResponse z3 fp theSolver satisfiable objects values hasSolution =
     (case satisfiable of
        Z3_L_TRUE \<Rightarrow>
          (case objects of
             None \<Rightarrow>
               (case values of
                  None \<Rightarrow> Inr (SOLVER_RUN_STATUS_SUCCESS_SOLVABLE, None, True)
                | Some vs \<Rightarrow> Inl (AssertionFailed ''values == NULL''))
           | Some objs \<Rightarrow>
               (case values of
                  None \<Rightarrow> Inl (AssertionFailed ''values cannot be nullptr'')
                | Some vs \<Rightarrow>
                    (case Z3_solver_get_model z3 theSolver of
                       None \<Rightarrow> Inl (AssertionFailed ''Failed to retrieve model'')
                     | Some theModel \<Rightarrow>
                         (case solverValues z3 fp theModel objs vs of
                            Inl f \<Rightarrow> Inl f
                          | Inr vs' \<Rightarrow>
                              Inr (SOLVER_RUN_STATUS_SUCCESS_SOLVABLE, Some vs', True)))))
      | Z3_L_FALSE \<Rightarrow> Inr (SOLVER_RUN_STATUS_SUCCESS_UNSOLVABLE, values, False)
      | Z3_L_UNDEF \<Rightarrow>
          (case undefStatus (Z3_solver_get_reason_unknown z3 theSolver) of
             Inl f \<Rightarrow> Inl f
           | Inr status \<Rightarrow> Inr (status, values, hasSolution)))"

text \<open>\<open>Z3_ast_vector_get\<close>; an index past the end is an error of the backend.\<close>

definition Z3_ast_vector_get :: "Z3_ast list \<Rightarrow> nat \<Rightarrow> Fatal + Z3_ast" where
  "Z3_ast_vector_get vec i = (if i < length vec then Inr (vec ! i) else Inl OutOfRange)"

text \<open>The body of the loop over \<open>idx\<close> in \<open>handleOptimizeResponse\<close>: one \<open>result\<close>.\<close>

definition upperBoundResult ::
  "Z3 \<Rightarrow> FloatOps \<Rightarrow> Z3_optimize \<Rightarrow> nat \<Rightarrow> Fatal + 64 word" where
  "upperBoundResult z3 fp theSolver idx =
     (let upperBoundVector = Z3_optimize_get_upper_as_vector z3 theSolver idx in
      (case Z3_ast_vector_get upperBoundVector 0 of
         Inl f \<Rightarrow> Inl f
       | Inr infinityCoefficient \<Rightarrow>
      (case Z3_ast_vector_get upperBoundVector 1 of
         Inl f \<Rightarrow> Inl f
       | Inr upperBound \<Rightarrow>
      (case Z3_ast_vector_get upperBoundVector 2 of
         Inl f \<Rightarrow> Inl f
       | Inr epsilonCoefficient \<Rightarrow>
          (case Z3_get_numeral_int z3 upperBound of
             Some upperBoundValue \<Rightarrow> Inr (int_to_double fp upperBoundValue)
           | None \<Rightarrow> rationalResult z3 fp upperBound)))))"

fun optimizeValues ::
  "Z3 \<Rightarrow> FloatOps \<Rightarrow> Z3_optimize \<Rightarrow> nat list \<Rightarrow> 64 word list \<Rightarrow> Fatal + 64 word list" where
  "optimizeValues z3 fp theSolver [] values = Inr values"
| "optimizeValues z3 fp theSolver (idx # rest) values =
     (case upperBoundResult z3 fp theSolver idx of
        Inl f \<Rightarrow> Inl f
      | Inr result \<Rightarrow> optimizeValues z3 fp theSolver rest (values @ [result]))"

definition handleOptimizeResponse ::
  "Z3 \<Rightarrow> FloatOps \<Rightarrow> Z3_optimize \<Rightarrow> Z3_lbool \<Rightarrow> Array list option \<Rightarrow> bool list \<Rightarrow>
   64 word list option \<Rightarrow> bool list \<Rightarrow> bool \<Rightarrow>
   Fatal + (SolverRunStatus \<times> bool list \<times> 64 word list option \<times> bool list \<times> bool)" where
  "handleOptimizeResponse z3 fp theSolver satisfiable objects infinity values epsilon
       hasSolution =
     (case satisfiable of
        Z3_L_TRUE \<Rightarrow>
          (case objects of
             None \<Rightarrow>
               (case values of
                  None \<Rightarrow>
                    Inr (SOLVER_RUN_STATUS_SUCCESS_SOLVABLE, infinity, None, epsilon, True)
                | Some vs \<Rightarrow> Inl (AssertionFailed ''values == NULL''))
           | Some objs \<Rightarrow>
               (case values of
                  None \<Rightarrow> Inl (AssertionFailed ''values cannot be nullptr'')
                | Some vs \<Rightarrow>
                    (case optimizeValues z3 fp theSolver [0..<length objs] vs of
                       Inl f \<Rightarrow> Inl f
                     | Inr vs' \<Rightarrow>
                         Inr (SOLVER_RUN_STATUS_SUCCESS_SOLVABLE, infinity, Some vs',
                              epsilon, True))))
      | Z3_L_FALSE \<Rightarrow>
          Inr (SOLVER_RUN_STATUS_SUCCESS_UNSOLVABLE, infinity, values, epsilon, False)
      | Z3_L_UNDEF \<Rightarrow>
          (case undefStatus (Z3_optimize_get_reason_unknown z3 theSolver) of
             Inl f \<Rightarrow> Inl f
           | Inr status \<Rightarrow> Inr (status, infinity, values, epsilon, hasSolution)))"

text \<open>
  What \<open>internalRunSolver\<close> has put into its solver, and \<open>internalRunOptimize\<close> into its
  optimizer, when the check is called.
\<close>

definition solverSession :: "Query \<Rightarrow> Z3_solver" where
  "solverSession query =
     \<lparr> solver_assertions =
         map construct (constraints query) @ [Z3_mk_not (construct (expr query))] \<rparr>"

definition optimizeSession :: "Query \<Rightarrow> Array list \<Rightarrow> Z3_optimize" where
  "optimizeSession query objs =
     \<lparr> optimize_assertions = map construct (constraints query),
       optimize_objectives = map (\<lambda>array. buildReal (name array)) objs \<rparr>"

text \<open>The counters at the start (every query, and one that asks for values) and at the end.\<close>

definition countQuery :: "bool \<Rightarrow> Stats \<Rightarrow> Stats" where
  "countQuery withObjects st =
     st\<lparr>queries := queries st + 1,
        queryCounterexamples := queryCounterexamples st + (if withObjects then 1 else 0)\<rparr>"

definition finishQuery :: "SolverRunStatus \<Rightarrow> bool \<Rightarrow> Stats \<Rightarrow> bool \<times> Stats" where
  "finishQuery status hasSolution st =
     (if status = SOLVER_RUN_STATUS_SUCCESS_SOLVABLE \<or>
         status = SOLVER_RUN_STATUS_SUCCESS_UNSOLVABLE
      then (True, if hasSolution then st\<lparr>queriesInvalid := queriesInvalid st + 1\<rparr>
                  else st\<lparr>queriesValid := queriesValid st + 1\<rparr>)
      else (False, st))"

definition internalRunSolver ::
  "Z3 \<Rightarrow> FloatOps \<Rightarrow> Z3ErrorSolverImpl \<Rightarrow> Query \<Rightarrow> Array list option \<Rightarrow>
   8 word list list option \<Rightarrow> bool \<Rightarrow>
   Fatal + (bool \<times> 8 word list list option \<times> bool \<times> Z3ErrorSolverImpl)" where
  "internalRunSolver z3 fp impl query objects values hasSolution =
     (let theSolver = solverSession query;
          st = countQuery (objects \<noteq> None) (stats impl);
          satisfiable = Z3_solver_check z3 theSolver
      in case handleSolverResponse z3 fp theSolver satisfiable objects values hasSolution of
           Inl f \<Rightarrow> Inl f
         | Inr (status, values', hasSolution') \<Rightarrow>
             (let (ok, st') = finishQuery status hasSolution' st
              in Inr (ok, values', hasSolution',
                      impl\<lparr>runStatusCode := status, stats := st'\<rparr>)))"

definition internalRunOptimize ::
  "Z3 \<Rightarrow> FloatOps \<Rightarrow> Z3ErrorSolverImpl \<Rightarrow> Query \<Rightarrow> Array list option \<Rightarrow> bool list \<Rightarrow>
   64 word list option \<Rightarrow> bool list \<Rightarrow> bool \<Rightarrow>
   Fatal + (bool \<times> bool list \<times> 64 word list option \<times> bool list \<times> bool \<times>
            Z3ErrorSolverImpl)" where
  "internalRunOptimize z3 fp impl query objects infinity values epsilon hasSolution =
     (case objects of
        None \<Rightarrow> Inl NullDereference
      | Some objs \<Rightarrow>
          (let theSolver = optimizeSession query objs;
               st = countQuery True (stats impl);
               satisfiable = Z3_optimize_check z3 theSolver
           in case handleOptimizeResponse z3 fp theSolver satisfiable objects infinity
                     values epsilon hasSolution of
                Inl f \<Rightarrow> Inl f
              | Inr (status, infinity', values', epsilon', hasSolution') \<Rightarrow>
                  (let (ok, st') = finishQuery status hasSolution' st
                   in Inr (ok, infinity', values', epsilon', hasSolution',
                           impl\<lparr>runStatusCode := status, stats := st'\<rparr>))))"

definition computeInitialValues ::
  "Z3 \<Rightarrow> FloatOps \<Rightarrow> Z3ErrorSolverImpl \<Rightarrow> Query \<Rightarrow> Array list \<Rightarrow> 8 word list list \<Rightarrow>
   bool \<Rightarrow> Fatal + (bool \<times> 8 word list list option \<times> bool \<times> Z3ErrorSolverImpl)" where
  "computeInitialValues z3 fp impl query objects values hasSolution =
     internalRunSolver z3 fp impl query (Some objects) (Some values) hasSolution"

definition computeOptimalValues ::
  "Z3 \<Rightarrow> FloatOps \<Rightarrow> Z3ErrorSolverImpl \<Rightarrow> Query \<Rightarrow> Array list \<Rightarrow> bool list \<Rightarrow>
   64 word list \<Rightarrow> bool list \<Rightarrow> bool \<Rightarrow>
   Fatal + (bool \<times> bool list \<times> 64 word list option \<times> bool list \<times> bool \<times>
            Z3ErrorSolverImpl)" where
  "computeOptimalValues z3 fp impl query objects infinity values epsilon hasSolution =
     internalRunOptimize z3 fp impl query (Some objects) infinity (Some values) epsilon
       hasSolution"

section \<open>Predicates and reference values used in the statements\<close>

text \<open>\<open>llvm::isa<ConstantExpr>\<close>.\<close>

fun isConstantExpr :: "Expr \<Rightarrow> bool" where
  "isConstantExpr (ConstantExpr w c) = True"
| "isConstantExpr e = False"

text \<open>
  The alignment as the specification words it: an error is zero-extended to the
  operand's width when it is narrower, and otherwise left as it is. (The code tests for
  a different width, see \<open>extendedErrors\<close>.)
\<close>

definition zextWhenNarrower :: "ExprBuilder \<Rightarrow> Expr \<Rightarrow> Expr \<Rightarrow> Expr" where
  "zextWhenNarrower ir error operand =
     (if getWidth ir error < getWidth ir operand
      then ZExtExpr_create ir error (getWidth ir operand) else error)"

text \<open>
  The reference encoding the specification compares against: the IEEE-754 binary64
  pattern of an integer of magnitude below \<open>2^53\<close> (every C \<open>int\<close> is one), which is
  exact: sign, biased exponent of the leading bit, and the bits below it.
\<close>

fun leadingBit :: "nat \<Rightarrow> nat" where
  "leadingBit m = (if m < 2 then 0 else Suc (leadingBit (m div 2)))"

declare leadingBit.simps [simp del]

definition ieee754_double_of_int :: "int \<Rightarrow> 64 word" where
  "ieee754_double_of_int n =
     (if n = 0 then 0
      else (let m = \<bar>n\<bar>; e = leadingBit (nat m)
            in word_of_int ((if n < 0 then 2 ^ 63 else 0) + (1023 + int e) * 2 ^ 52 +
                            (m - 2 ^ e) * 2 ^ (52 - e))))"

text \<open>
  The reference quotient of two binary64 patterns, rounded to nearest, ties to even, for
  operands that are zero or normal and a quotient that is normal: every quotient of the
  doubles of two C \<open>int\<close>s with a nonzero divisor is in that range. A zero over a
  normal number is the zero of the product sign, a normal number over zero the infinity
  of the product sign. Outside this range (subnormal, infinite or NaN operands, zero over
  zero, a quotient that is not normal) it answers with the quiet NaN pattern; no
  statement below depends on that answer.
\<close>

definition ieee754_double_div :: "64 word \<Rightarrow> 64 word \<Rightarrow> 64 word" where
  "ieee754_double_div a b =
     (let sign = (if uint a div 2 ^ 63 \<noteq> uint b div 2 ^ 63 then 2 ^ 63 else 0);
          ea = (uint a div 2 ^ 52) mod 2 ^ 11; ma = uint a mod 2 ^ 52;
          eb = (uint b div 2 ^ 52) mod 2 ^ 11; mb = uint b mod 2 ^ 52;
          zero_a = (ea = 0 \<and> ma = 0); zero_b = (eb = 0 \<and> mb = 0);
          normal_a = (0 < ea \<and> ea < 2047); normal_b = (0 < eb \<and> eb < 2047)
      in if zero_a \<and> normal_b then word_of_int sign
         else if normal_a \<and> zero_b then word_of_int (sign + 2047 * 2 ^ 52)
         else if normal_a \<and> normal_b then
           (let Ma = 2 ^ 52 + ma; Mb = 2 ^ 52 + mb;
                N = (if Mb \<le> Ma then Ma * 2 ^ 52 else Ma * 2 ^ 53);
                E = (if Mb \<le> Ma then ea - eb + 1023 else ea - eb + 1022);
                q = N div Mb; r = N mod Mb;
                q' = (if Mb < 2 * r \<or> (2 * r = Mb \<and> odd q) then q + 1 else q);
                E' = (if q' = 2 ^ 53 then E + 1 else E);
                q'' = (if q' = 2 ^ 53 then 2 ^ 52 else q')
            in if 0 < E' \<and> E' < 2047 then word_of_int (sign + E' * 2 ^ 52 + (q'' - 2 ^ 52))
               else 0x7FF8000000000000)
         else 0x7FF8000000000000)"

text \<open>
  The conditions on the backend's answers under which a value decodes: an integer can
  be extracted from the numeral, or from both its numerator and its denominator; the
  model evaluates the array's initial read to such a numeral; the upper-bound vector of
  an objective has its three entries and its bound is such a numeral.
\<close>

definition numeralExtractable :: "Z3 \<Rightarrow> Z3_ast \<Rightarrow> bool" where
  "numeralExtractable z3 ex =
     (Z3_get_numeral_int z3 ex \<noteq> None \<or>
      (Z3_get_numeral_int z3 (Z3_get_numerator z3 ex) \<noteq> None \<and>
       Z3_get_numeral_int z3 (Z3_get_denominator z3 ex) \<noteq> None))"

definition valueDecodable :: "Z3 \<Rightarrow> Z3_model \<Rightarrow> Array \<Rightarrow> bool" where
  "valueDecodable z3 theModel array =
     (case Z3_model_eval z3 theModel (getInitialRead array 0) of
        None \<Rightarrow> False
      | Some ex \<Rightarrow> Z3_get_ast_kind z3 ex = Z3_NUMERAL_AST \<and> numeralExtractable z3 ex)"

definition boundDecodable :: "Z3 \<Rightarrow> Z3_optimize \<Rightarrow> nat \<Rightarrow> bool" where
  "boundDecodable z3 theSolver idx =
     (3 \<le> length (Z3_optimize_get_upper_as_vector z3 theSolver idx) \<and>
      numeralExtractable z3 (Z3_optimize_get_upper_as_vector z3 theSolver idx ! 1))"

section \<open>Concrete inputs\<close>

definition arrayX :: Array where
  "arrayX = Array ''x'' 4"

definition readX :: Expr where
  "readX = ReadExpr arrayX None (ConstantExpr 32 0)"

definition errorX :: Expr where
  "errorX = ReadExpr (Array ''_unspecified_error_x'' 8) None (ConstantExpr 8 0)"

definition binaryInstr :: "Opcode \<Rightarrow> Instruction" where
  "binaryInstr opc = \<lparr> inst = 3, getOpcode = opc, operands = [1, 2] \<rparr>"

text \<open>The ledger after the first reference to \<open>arrayX\<close>.\<close>

definition ledgerX :: SymbolicError where
  "ledgerX =
     emptyLedger\<lparr>errorArrayCache := [Array ''_unspecified_error_x'' 8],
                 arrayErrorArrayMap := [arrayX \<mapsto> Array ''_unspecified_error_x'' 8]\<rparr>"

text \<open>
  A 32-bit product \<open>%5 = mul i32 %6, %7\<close> of a 32-bit value read from \<open>arrayX\<close>, its
  truncation \<open>%1 = trunc i32 %5 to i8\<close>, and the ledger after \<open>propagateError\<close> has
  seen both: the default case has forwarded the 32-bit error of \<open>%5\<close> to the 8-bit \<open>%1\<close>.
\<close>

definition x32 :: Expr where
  "x32 = ConcatExpr readX (ConcatExpr readX (ConcatExpr readX readX))"

definition mul32 :: Instruction where
  "mul32 = \<lparr> inst = 5, getOpcode = Mul, operands = [6, 7] \<rparr>"

definition trunc8 :: Instruction where
  "trunc8 = \<lparr> inst = 1, getOpcode = OtherOpcode 0, operands = [5] \<rparr>"

definition truncated :: Expr where
  "truncated = ExtractExpr (MulExpr x32 x32) 0 8"

definition wideError :: Expr where
  "wideError = AddExpr (ZExtExpr errorX 32) (ZExtExpr errorX 32)"

definition mulLedger :: SymbolicError where
  "mulLedger =
     ledgerX\<lparr>valueErrorMap := [6 \<mapsto> Some errorX, 7 \<mapsto> Some errorX, 5 \<mapsto> Some wideError]\<rparr>"

definition wideLedger :: SymbolicError where
  "wideLedger =
     ledgerX\<lparr>valueErrorMap :=
               [6 \<mapsto> Some errorX, 7 \<mapsto> Some errorX, 5 \<mapsto> Some wideError,
                1 \<mapsto> Some wideError]\<rparr>"

text \<open>
  A fake backend that answers every check with \<open>sat\<close> and gives every value as one
  numeral: \<open>Some n\<close> when it is the machine integer \<open>n\<close>, \<open>None\<close> when no integer can be
  extracted from it, nor from its numerator and denominator.
\<close>

definition satBackend :: "32 word option \<Rightarrow> Z3" where
  "satBackend n =
     \<lparr> Z3_solver_check = (\<lambda>s. Z3_L_TRUE),
       Z3_solver_get_reason_unknown = (\<lambda>s. []),
       Z3_solver_get_model = (\<lambda>s. Some 0),
       Z3_model_eval = (\<lambda>m a. Some (Z3_value 0)),
       Z3_get_ast_kind = (\<lambda>a. Z3_NUMERAL_AST),
       Z3_get_numeral_int = (\<lambda>a. n),
       Z3_get_numerator = (\<lambda>a. a),
       Z3_get_denominator = (\<lambda>a. a),
       Z3_optimize_check = (\<lambda>s. Z3_L_TRUE),
       Z3_optimize_get_reason_unknown = (\<lambda>s. []),
       Z3_optimize_get_upper_as_vector = (\<lambda>s idx. [Z3_value 1, Z3_value 0, Z3_value 2]) \<rparr>"

text \<open>A fake backend that answers every check with \<open>lb\<close> and the given reason.\<close>

definition replyBackend :: "Z3_lbool \<Rightarrow> string \<Rightarrow> Z3" where
  "replyBackend lb reason =
     (satBackend (Some 0))
       \<lparr> Z3_solver_check := (\<lambda>s. lb),
         Z3_solver_get_reason_unknown := (\<lambda>s. reason),
         Z3_optimize_check := (\<lambda>s. lb),
         Z3_optimize_get_reason_unknown := (\<lambda>s. reason) \<rparr>"

definition freshImpl :: Z3ErrorSolverImpl where
  "freshImpl =
     \<lparr> runStatusCode = SOLVER_RUN_STATUS_FAILURE,
       stats = \<lparr> queries = 0, queryCounterexamples = 0, queriesValid = 0,
                 queriesInvalid = 0 \<rparr> \<rparr>"

text \<open>
  A fake backend whose every value is a numeral that is no machine integer, with the
  numerator \<open>n\<close> and the denominator \<open>d\<close>.
\<close>

definition rationalBackend :: "32 word \<Rightarrow> 32 word \<Rightarrow> Z3" where
  "rationalBackend n d =
     (satBackend None)
       \<lparr> Z3_get_numeral_int :=
           (\<lambda>a. if a = Z3_value 3 then Some n else if a = Z3_value 4 then Some d else None),
         Z3_get_numerator := (\<lambda>a. Z3_value 3),
         Z3_get_denominator := (\<lambda>a. Z3_value 4) \<rparr>"

text \<open>
  The floating-point unit for concrete runs: the exact conversion of an \<open>int\<close> and the
  reference quotient.
\<close>

definition ieeeFloatOps :: FloatOps where
  "ieeeFloatOps =
     \<lparr> int_to_double = (\<lambda>i. ieee754_double_of_int (sint i)),
       double_div = ieee754_double_div \<rparr>"

text \<open>The query with no constraint and the goal \<open>false\<close>.\<close>

definition falseQuery :: Query where
  "falseQuery = \<lparr> constraints = [], expr = ConstantExpr 1 0 \<rparr>"

section \<open>Theorems\<close>

subsection \<open>Lemmas on the ledger\<close>







lemma memoError_result:
  "memoError v r = Inr (ret, s') \<Longrightarrow>
   \<exists>s. r = Inr (ret, s) \<and> arrayErrorArrayMap s' = arrayErrorArrayMap s \<and>
       errorArrayCache s' = errorArrayCache s"
  by (auto simp: memoError_def split: sum.splits if_splits)









text \<open>
  The Add and Sub cases for any builder: Add divides by a result that is a nonzero
  constant and otherwise returns the result expression it was given; Sub always divides.
\<close>

lemma add_keeps_result:
  assumes "getOpcode instr = Add"
    and "extendedErrors ir s instr arguments = Inr (extendedLeft, a0, extendedRight, a1, s2)"
    and "\<not> isConstantExpr result \<or> (\<exists>w. result = ConstantExpr w 0)"
  shows "propagateError ir s instr result arguments =
           Inr (Some result, setValueError s2 (inst instr) (Some result))"
  using assms by (cases result) (auto simp: propagateError_def Let_def)

lemma add_divides_by_nonzero_constant:
  assumes "getOpcode instr = Add"
    and "extendedErrors ir s instr arguments = Inr (extendedLeft, a0, extendedRight, a1, s2)"
    and "result = ConstantExpr w c" "c \<noteq> 0"
  shows "propagateError ir s instr result arguments =
           Inr (Some (UDivExpr_create ir
                        (AddExpr_create ir (MulExpr_create ir extendedLeft a0)
                           (MulExpr_create ir extendedRight a1)) result),
                setValueError s2 (inst instr)
                  (Some (UDivExpr_create ir
                        (AddExpr_create ir (MulExpr_create ir extendedLeft a0)
                           (MulExpr_create ir extendedRight a1)) result)))"
  using assms by (simp add: propagateError_def Let_def)

lemma sub_always_divides:
  assumes "getOpcode instr = Sub"
    and "extendedErrors ir s instr arguments = Inr (extendedLeft, a0, extendedRight, a1, s2)"
  shows "propagateError ir s instr result arguments =
           Inr (Some (UDivExpr_create ir
                        (AddExpr_create ir (MulExpr_create ir extendedLeft a0)
                           (MulExpr_create ir extendedRight a1)) result),
                setValueError s2 (inst instr)
                  (Some (UDivExpr_create ir
                        (AddExpr_create ir (MulExpr_create ir extendedLeft a0)
                           (MulExpr_create ir extendedRight a1)) result)))"
  using assms by (simp add: propagateError_def Let_def)

subsection \<open>The claims on the ledger\<close>

text \<open>
  C1 at an Add whose result is symbolic. The two operand errors are \<open>errorX\<close> and the
  zero constant, so the weighted sum is \<open>errorX * readX + 0 * 20\<close>; what
  \<open>propagateError\<close> returns and stores under the instruction is the result expression
  \<open>readX + 20\<close> itself, which the case leaves in \<open>result\<close> when it does not divide.
\<close>

theorem add_symbolic_result_stores_result:
  "map_sum id fst
     (propagateError allocBuilder emptyLedger (binaryInstr Add)
        (AddExpr readX (ConstantExpr 8 20)) [readX, ConstantExpr 8 20]) =
     Inr (Some (AddExpr readX (ConstantExpr 8 20))) \<and>
   map_sum id (\<lambda>(ret, s). valueErrorMap s 3)
     (propagateError allocBuilder emptyLedger (binaryInstr Add)
        (AddExpr readX (ConstantExpr 8 20)) [readX, ConstantExpr 8 20]) =
     Inr (Some (Some (AddExpr readX (ConstantExpr 8 20)))) \<and>
   getError allocBuilder emptyLedger readX 1 =
     Inr (errorX, ledgerX\<lparr>valueErrorMap := [1 \<mapsto> Some errorX]\<rparr>) \<and>
   getError allocBuilder (ledgerX\<lparr>valueErrorMap := [1 \<mapsto> Some errorX]\<rparr>)
       (ConstantExpr 8 20) 2 =
     Inr (ConstantExpr 8 0,
          ledgerX\<lparr>valueErrorMap := [1 \<mapsto> Some errorX, 2 \<mapsto> Some (ConstantExpr 8 0)]\<rparr>) \<and>
   AddExpr readX (ConstantExpr 8 20) \<noteq>
     AddExpr_create allocBuilder (MulExpr_create allocBuilder errorX readX)
       (MulExpr_create allocBuilder (ConstantExpr 8 0) (ConstantExpr 8 20))"
  by (simp add: allocBuilder_def emptyLedger_def readX_def arrayX_def errorX_def ledgerX_def
        binaryInstr_def propagateError_def extendedErrors_def getOperand_def argument_def
        cachedError_def memoError_def unspecifiedError_def CreateArray_def setValueError_def
        Let_def)

text \<open>
  C4 at a Sub. The Sub case has no test on \<open>result\<close>: it builds the division of the
  weighted sum by the result when the result is the zero constant (\<open>x - x\<close>), and when
  it is symbolic.
\<close>

theorem sub_divides_by_zero_constant:
  "map_sum id fst
     (propagateError allocBuilder emptyLedger (binaryInstr Sub) (ConstantExpr 8 0)
        [readX, readX]) =
     Inr (Some (UDivExpr (AddExpr (MulExpr errorX readX) (MulExpr errorX readX))
                  (ConstantExpr 8 0))) \<and>
   map_sum id fst
     (propagateError allocBuilder emptyLedger (binaryInstr Sub)
        (SubExpr readX (ConstantExpr 8 20)) [readX, ConstantExpr 8 20]) =
     Inr (Some (UDivExpr (AddExpr (MulExpr errorX readX)
                            (MulExpr (ConstantExpr 8 0) (ConstantExpr 8 20)))
                  (SubExpr readX (ConstantExpr 8 20))))"
  by (simp add: allocBuilder_def emptyLedger_def readX_def arrayX_def errorX_def
        binaryInstr_def propagateError_def extendedErrors_def getOperand_def argument_def
        cachedError_def memoError_def unspecifiedError_def CreateArray_def setValueError_def
        Let_def)

text \<open>
  C6, as amended. \<open>executeStore\<close> of a null error returns at once and changes nothing,
  whatever the address. At an address that is not a constant, \<open>executeStore\<close> of a
  non-null error and \<open>executeLoad\<close> are fatal ("non-constant address").
\<close>

theorem symbolic_address_fatal:
  "executeStore s address None = Inr s \<and>
   (\<not> isConstantExpr address \<longrightarrow>
      executeStore s address (Some e) = Inl (AssertionFailed ''non-constant address'') \<and>
      executeLoad s v address = Inl (AssertionFailed ''non-constant address''))"
  by (cases address) (simp_all add: executeStore_def executeLoad_def)

theorem symbolic_address_fatal_witness:
  "\<not> isConstantExpr readX \<and>
   executeStore emptyLedger readX (Some errorX) =
     Inl (AssertionFailed ''non-constant address'') \<and>
   executeLoad emptyLedger 7 readX = Inl (AssertionFailed ''non-constant address'') \<and>
   executeStore emptyLedger readX None = Inr emptyLedger \<and>
   executeStore emptyLedger (ConstantExpr 64 4096) None = Inr emptyLedger"
  using symbolic_address_fatal [of emptyLedger readX errorX 7]
        symbolic_address_fatal [of emptyLedger "ConstantExpr 64 4096" errorX 7]
  by (simp add: readX_def)

text \<open>
  C6 as stated fails for \<open>executeStore\<close> with a null error: the null test comes before
  the address test, so the call succeeds silently at a symbolic address.
\<close>

theorem symbolic_store_of_null_counterexample:
  "\<not> isConstantExpr readX \<and> executeStore emptyLedger readX None = Inr emptyLedger"
  by (simp add: readX_def executeStore_def)

text \<open>
  C8. For every constant address and every non-null error, \<open>executeStore\<close> succeeds and
  \<open>executeLoad\<close> at the same address then returns that very error; \<open>executeLoad\<close> at
  a constant address with no stored error returns the zero constant of width 8.
\<close>

theorem store_then_load:
  "executeStore s (ConstantExpr w a) (Some e) =
     Inr (s\<lparr>storedError := (storedError s)(a \<mapsto> e)\<rparr>) \<and>
   executeLoad (s\<lparr>storedError := (storedError s)(a \<mapsto> e)\<rparr>) v (ConstantExpr w a) =
     Inr (e, setValueError (s\<lparr>storedError := (storedError s)(a \<mapsto> e)\<rparr>) v (Some e)) \<and>
   (storedError s a = None \<longrightarrow>
      executeLoad s v (ConstantExpr w a) =
        Inr (ConstantExpr 8 0, setValueError s v (Some (ConstantExpr 8 0))))"
  by (simp add: executeStore_def executeLoad_def setValueError_def Let_def)

theorem store_then_load_witness:
  "storedError emptyLedger 4096 = None \<and>
   executeLoad emptyLedger 7 (ConstantExpr 64 4096) =
     Inr (ConstantExpr 8 0, setValueError emptyLedger 7 (Some (ConstantExpr 8 0))) \<and>
   executeStore emptyLedger (ConstantExpr 64 4096) (Some errorX) =
     Inr (emptyLedger\<lparr>storedError := [4096 \<mapsto> errorX]\<rparr>) \<and>
   executeLoad (emptyLedger\<lparr>storedError := [4096 \<mapsto> errorX]\<rparr>) 7
       (ConstantExpr 64 4096) =
     Inr (errorX,
          setValueError (emptyLedger\<lparr>storedError := [4096 \<mapsto> errorX]\<rparr>) 7 (Some errorX))"
  using store_then_load [of emptyLedger 64 4096 errorX 7]
  by (simp add: emptyLedger_def)

text \<open>
  C9, as amended. For a Mul, UDiv or SDiv instruction whose two operand errors
  \<open>getError\<close> derives, \<open>propagateError\<close> stores under the instruction and returns the
  sum of the two errors, each passed through \<open>ZExtExpr::create\<close> to its operand's width
  whenever its width differs from the operand's (a zero extension when it is narrower);
  nothing is normalized and no operand is multiplied in.
\<close>

theorem mul_div_error_is_sum:
  assumes opc: "getOpcode instr = Mul \<or> getOpcode instr = UDiv \<or> getOpcode instr = SDiv"
    and ops: "operands instr = lOp # rOp # ops"
    and args: "arguments = a0 # a1 # args"
    and l: "getError ir s a0 lOp = Inr (lError, s1)"
    and r: "getError ir s1 a1 rOp = Inr (rError, s2)"
  shows "propagateError ir s instr result arguments =
           Inr (Some (AddExpr_create ir
                        (if getWidth ir lError \<noteq> getWidth ir a0
                         then ZExtExpr_create ir lError (getWidth ir a0) else lError)
                        (if getWidth ir rError \<noteq> getWidth ir a1
                         then ZExtExpr_create ir rError (getWidth ir a1) else rError)),
                setValueError s2 (inst instr)
                  (Some (AddExpr_create ir
                        (if getWidth ir lError \<noteq> getWidth ir a0
                         then ZExtExpr_create ir lError (getWidth ir a0) else lError)
                        (if getWidth ir rError \<noteq> getWidth ir a1
                         then ZExtExpr_create ir rError (getWidth ir a1) else rError))))"
proof -
  have ext: "extendedErrors ir s instr arguments =
      Inr (if getWidth ir lError \<noteq> getWidth ir a0
           then ZExtExpr_create ir lError (getWidth ir a0) else lError, a0,
           if getWidth ir rError \<noteq> getWidth ir a1
           then ZExtExpr_create ir rError (getWidth ir a1) else rError, a1, s2)"
    using ops args l r by (simp add: extendedErrors_def getOperand_def argument_def)
  from opc show ?thesis
    by (auto simp: propagateError_def ext Let_def)
qed

theorem mul_div_error_is_sum_witness:
  "getOpcode (binaryInstr Mul) = Mul \<and>
   getError allocBuilder wideLedger truncated 1 = Inr (wideError, wideLedger) \<and>
   getError allocBuilder wideLedger (ConstantExpr 8 6) 2 =
     Inr (ConstantExpr 8 0, setValueError wideLedger 2 (Some (ConstantExpr 8 0))) \<and>
   propagateError allocBuilder wideLedger (binaryInstr Mul)
       (MulExpr truncated (ConstantExpr 8 6)) [truncated, ConstantExpr 8 6] =
     Inr (Some (AddExpr (ZExtExpr wideError 8) (ConstantExpr 8 0)),
          setValueError (setValueError wideLedger 2 (Some (ConstantExpr 8 0))) 3
            (Some (AddExpr (ZExtExpr wideError 8) (ConstantExpr 8 0))))"
  using mul_div_error_is_sum [of "binaryInstr Mul" 1 2 "[]" "[truncated, ConstantExpr 8 6]"
          truncated "ConstantExpr 8 6" "[]" allocBuilder wideLedger wideError wideLedger
          "ConstantExpr 8 0" "setValueError wideLedger 2 (Some (ConstantExpr 8 0))"
          "MulExpr truncated (ConstantExpr 8 6)"]
  by (simp add: allocBuilder_def emptyLedger_def readX_def arrayX_def errorX_def ledgerX_def
        binaryInstr_def propagateError_def extendedErrors_def getOperand_def argument_def
        cachedError_def memoError_def unspecifiedError_def CreateArray_def setValueError_def
        Let_def
        x32_def mul32_def trunc8_def truncated_def wideError_def mulLedger_def
        wideLedger_def)

text \<open>
  C9 as stated fails when an error is wider than its operand: the code does not leave it
  alone, it passes it through \<open>ZExtExpr::create\<close> with the smaller width. Here the
  operand \<open>%1\<close> is 8 bits wide and its error, forwarded from \<open>%5\<close>, is 32 bits wide.
\<close>

theorem wider_error_counterexample:
  "propagateError allocBuilder emptyLedger mul32 (MulExpr x32 x32) [x32, x32] =
     Inr (Some wideError, mulLedger) \<and>
   propagateError allocBuilder mulLedger trunc8 truncated [MulExpr x32 x32] =
     Inr (Some wideError, wideLedger) \<and>
   getError allocBuilder wideLedger truncated 1 = Inr (wideError, wideLedger) \<and>
   getError allocBuilder wideLedger (ConstantExpr 8 6) 2 =
     Inr (ConstantExpr 8 0, setValueError wideLedger 2 (Some (ConstantExpr 8 0))) \<and>
   map_sum id fst
     (propagateError allocBuilder wideLedger (binaryInstr Mul)
        (MulExpr truncated (ConstantExpr 8 6)) [truncated, ConstantExpr 8 6]) =
     Inr (Some (AddExpr (ZExtExpr wideError 8) (ConstantExpr 8 0))) \<and>
   AddExpr_create allocBuilder (zextWhenNarrower allocBuilder wideError truncated)
       (zextWhenNarrower allocBuilder (ConstantExpr 8 0) (ConstantExpr 8 6)) =
     AddExpr wideError (ConstantExpr 8 0) \<and>
   AddExpr (ZExtExpr wideError 8) (ConstantExpr 8 0) \<noteq> AddExpr wideError (ConstantExpr 8 0)"
  by (simp add: allocBuilder_def emptyLedger_def readX_def arrayX_def errorX_def ledgerX_def
        binaryInstr_def propagateError_def extendedErrors_def getOperand_def argument_def
        cachedError_def memoError_def unspecifiedError_def CreateArray_def setValueError_def
        Let_def
        x32_def mul32_def trunc8_def truncated_def wideError_def mulLedger_def
        wideLedger_def zextWhenNarrower_def)



subsection \<open>Lemmas on the solver front end\<close>

lemma intBytes_42: "intBytes 8 42 = [42, 0, 0, 0, 0, 0, 0, 0]"
  by code_simp

lemma double_42_bytes: "uint64Bytes 8 (ieee754_double_of_int 42) = [0, 0, 0, 0, 0, 0, 69, 64]"
  by code_simp

text \<open>
  What the two decoders return, in terms of the backend's answers: the value in the
  integer and in the rational case, and the abort when neither extraction succeeds.
\<close>

lemma rationalResult_value:
  "Z3_get_numeral_int z3 (Z3_get_numerator z3 ex) = Some n \<Longrightarrow>
   Z3_get_numeral_int z3 (Z3_get_denominator z3 ex) = Some d \<Longrightarrow>
   rationalResult z3 fp ex = Inr (double_div fp (int_to_double fp n) (int_to_double fp d))"
  by (simp add: rationalResult_def)

lemma rationalResult_abort:
  "Z3_get_numeral_int z3 (Z3_get_numerator z3 ex) = None \<or>
   Z3_get_numeral_int z3 (Z3_get_denominator z3 ex) = None \<Longrightarrow>
   rationalResult z3 fp ex = Inl (AssertionFailed ''failed to get value back'')"
  by (auto simp: rationalResult_def split: option.splits)

lemma arrayData_int:
  "Z3_model_eval z3 m (getInitialRead a 0) = Some ex \<Longrightarrow>
   Z3_get_ast_kind z3 ex = Z3_NUMERAL_AST \<Longrightarrow>
   Z3_get_numeral_int z3 ex = Some n \<Longrightarrow>
   arrayData z3 fp m a = Inr (intBytes 8 n)"
  by (simp add: arrayData_def)

lemma arrayData_rational:
  "Z3_model_eval z3 m (getInitialRead a 0) = Some ex \<Longrightarrow>
   Z3_get_ast_kind z3 ex = Z3_NUMERAL_AST \<Longrightarrow>
   Z3_get_numeral_int z3 ex = None \<Longrightarrow>
   Z3_get_numeral_int z3 (Z3_get_numerator z3 ex) = Some n \<Longrightarrow>
   Z3_get_numeral_int z3 (Z3_get_denominator z3 ex) = Some d \<Longrightarrow>
   arrayData z3 fp m a =
     Inr (uint64Bytes 8 (double_div fp (int_to_double fp n) (int_to_double fp d)))"
  by (simp add: arrayData_def rationalResult_value)

lemma arrayData_decodable:
  "valueDecodable z3 m a \<Longrightarrow> \<exists>data. arrayData z3 fp m a = Inr data"
  by (auto simp: valueDecodable_def numeralExtractable_def arrayData_def rationalResult_def
           split: option.splits)

lemma arrayData_abort:
  "\<not> valueDecodable z3 m a \<Longrightarrow> \<exists>msg. arrayData z3 fp m a = Inl (AssertionFailed msg)"
  by (auto simp: valueDecodable_def numeralExtractable_def arrayData_def rationalResult_def
           split: option.splits)

lemma solverValues_decodable:
  "(\<forall>a\<in>set objs. valueDecodable z3 m a) \<Longrightarrow>
   \<exists>vs'. solverValues z3 fp m objs vs = Inr vs' \<and> length vs' = length vs + length objs"
proof (induction objs arbitrary: vs)
  case Nil
  then show ?case by simp
next
  case (Cons a objs)
  then obtain data where d: "arrayData z3 fp m a = Inr data"
    using arrayData_decodable [of z3 m a fp] by auto
  from Cons.prems have "\<forall>a\<in>set objs. valueDecodable z3 m a" by simp
  from Cons.IH [OF this, of "vs @ [data]"] d show ?case by auto
qed

lemma solverValues_abort:
  "(\<exists>a\<in>set objs. \<not> valueDecodable z3 m a) \<Longrightarrow>
   \<exists>msg. solverValues z3 fp m objs vs = Inl (AssertionFailed msg)"
proof (induction objs arbitrary: vs)
  case Nil
  then show ?case by simp
next
  case (Cons a objs)
  show ?case
  proof (cases "valueDecodable z3 m a")
    case True
    then obtain data where d: "arrayData z3 fp m a = Inr data"
      using arrayData_decodable [of z3 m a fp] by auto
    from True Cons.prems have "\<exists>a\<in>set objs. \<not> valueDecodable z3 m a" by auto
    from Cons.IH [OF this, of "vs @ [data]"] d show ?thesis by simp
  next
    case False
    then obtain msg where "arrayData z3 fp m a = Inl (AssertionFailed msg)"
      using arrayData_abort [of z3 m a fp] by auto
    then show ?thesis by simp
  qed
qed

lemma upperBoundResult_int:
  "3 \<le> length (Z3_optimize_get_upper_as_vector z3 opt idx) \<Longrightarrow>
   Z3_get_numeral_int z3 (Z3_optimize_get_upper_as_vector z3 opt idx ! 1) = Some n \<Longrightarrow>
   upperBoundResult z3 fp opt idx = Inr (int_to_double fp n)"
  by (auto simp: upperBoundResult_def Z3_ast_vector_get_def Let_def)

lemma upperBoundResult_rational:
  "3 \<le> length (Z3_optimize_get_upper_as_vector z3 opt idx) \<Longrightarrow>
   Z3_get_numeral_int z3 (Z3_optimize_get_upper_as_vector z3 opt idx ! 1) = None \<Longrightarrow>
   Z3_get_numeral_int z3
     (Z3_get_numerator z3 (Z3_optimize_get_upper_as_vector z3 opt idx ! 1)) = Some n \<Longrightarrow>
   Z3_get_numeral_int z3
     (Z3_get_denominator z3 (Z3_optimize_get_upper_as_vector z3 opt idx ! 1)) = Some d \<Longrightarrow>
   upperBoundResult z3 fp opt idx =
     Inr (double_div fp (int_to_double fp n) (int_to_double fp d))"
  by (auto simp: upperBoundResult_def Z3_ast_vector_get_def Let_def rationalResult_value)

lemma upperBoundResult_decodable:
  "boundDecodable z3 opt idx \<Longrightarrow> \<exists>result. upperBoundResult z3 fp opt idx = Inr result"
  by (auto simp: boundDecodable_def numeralExtractable_def upperBoundResult_def
                 Z3_ast_vector_get_def rationalResult_def Let_def split: option.splits)

lemma upperBoundResult_abort:
  "\<not> boundDecodable z3 opt idx \<Longrightarrow>
   upperBoundResult z3 fp opt idx = Inl (AssertionFailed ''failed to get value back'') \<or>
   upperBoundResult z3 fp opt idx = Inl OutOfRange"
  by (auto simp: boundDecodable_def numeralExtractable_def upperBoundResult_def
                 Z3_ast_vector_get_def rationalResult_def Let_def split: option.splits)

lemma optimizeValues_decodable:
  "(\<forall>idx\<in>set idxs. boundDecodable z3 opt idx) \<Longrightarrow>
   \<exists>ds'. optimizeValues z3 fp opt idxs ds = Inr ds' \<and> length ds' = length ds + length idxs"
proof (induction idxs arbitrary: ds)
  case Nil
  then show ?case by simp
next
  case (Cons i idxs)
  then obtain result where d: "upperBoundResult z3 fp opt i = Inr result"
    using upperBoundResult_decodable [of z3 opt i fp] by auto
  from Cons.prems have "\<forall>idx\<in>set idxs. boundDecodable z3 opt idx" by simp
  from Cons.IH [OF this, of "ds @ [result]"] d show ?case by auto
qed

lemma optimizeValues_abort:
  "(\<exists>idx\<in>set idxs. \<not> boundDecodable z3 opt idx) \<Longrightarrow>
   optimizeValues z3 fp opt idxs ds = Inl (AssertionFailed ''failed to get value back'') \<or>
   optimizeValues z3 fp opt idxs ds = Inl OutOfRange"
proof (induction idxs arbitrary: ds)
  case Nil
  then show ?case by simp
next
  case (Cons i idxs)
  show ?case
  proof (cases "boundDecodable z3 opt i")
    case True
    then obtain result where d: "upperBoundResult z3 fp opt i = Inr result"
      using upperBoundResult_decodable [of z3 opt i fp] by auto
    from True Cons.prems have "\<exists>idx\<in>set idxs. \<not> boundDecodable z3 opt idx" by auto
    from Cons.IH [OF this, of "ds @ [result]"] d show ?thesis by simp
  next
    case False
    from upperBoundResult_abort [OF this, of fp] show ?thesis by auto
  qed
qed

lemma solver_sat_none:
  "handleSolverResponse z3 fp slv Z3_L_TRUE None None hs =
     Inr (SOLVER_RUN_STATUS_SUCCESS_SOLVABLE, None, True)"
  by (simp add: handleSolverResponse_def)

lemma solver_sat_decodable:
  assumes "Z3_solver_get_model z3 slv = Some m"
    and all: "\<forall>a\<in>set objs. valueDecodable z3 m a"
  shows "\<exists>vs'. handleSolverResponse z3 fp slv Z3_L_TRUE (Some objs) (Some vs) hs =
               Inr (SOLVER_RUN_STATUS_SUCCESS_SOLVABLE, Some vs', True) \<and>
             length vs' = length vs + length objs"
proof -
  from solverValues_decodable [OF all, of fp vs] obtain vs'
    where "solverValues z3 fp m objs vs = Inr vs'" "length vs' = length vs + length objs"
    by blast
  with assms(1) show ?thesis by (simp add: handleSolverResponse_def)
qed

lemma solver_sat_abort:
  assumes "(objects = None \<and> values \<noteq> None) \<or> (objects \<noteq> None \<and> values = None) \<or>
           (objects = Some objs \<and> values = Some vs \<and>
            (Z3_solver_get_model z3 slv = None \<or>
             (Z3_solver_get_model z3 slv = Some m \<and> (\<exists>a\<in>set objs. \<not> valueDecodable z3 m a))))"
  shows "\<exists>msg. handleSolverResponse z3 fp slv Z3_L_TRUE objects values hs =
               Inl (AssertionFailed msg)"
proof -
  consider "objects = None \<and> values \<noteq> None" | "objects \<noteq> None \<and> values = None"
    | "objects = Some objs \<and> values = Some vs \<and> Z3_solver_get_model z3 slv = None"
    | "objects = Some objs \<and> values = Some vs \<and> Z3_solver_get_model z3 slv = Some m \<and>
       (\<exists>a\<in>set objs. \<not> valueDecodable z3 m a)"
    using assms by blast
  then show ?thesis
  proof cases
    case 1
    then show ?thesis by (auto simp: handleSolverResponse_def)
  next
    case 2
    then show ?thesis by (auto simp: handleSolverResponse_def)
  next
    case 3
    then show ?thesis by (simp add: handleSolverResponse_def)
  next
    case 4
    then obtain msg where "solverValues z3 fp m objs vs = Inl (AssertionFailed msg)"
      using solverValues_abort [of objs z3 m fp vs] by blast
    with 4 show ?thesis by (simp add: handleSolverResponse_def)
  qed
qed

lemma solver_sat_status:
  "handleSolverResponse z3 fp slv Z3_L_TRUE objects values hs = Inr (status, vs', hs') \<Longrightarrow>
   status = SOLVER_RUN_STATUS_SUCCESS_SOLVABLE \<and> hs' = True"
  by (auto simp: handleSolverResponse_def split: option.splits sum.splits)

lemma solver_unsat_undef:
  "handleSolverResponse z3 fp slv Z3_L_FALSE objects values hs =
     Inr (SOLVER_RUN_STATUS_SUCCESS_UNSOLVABLE, values, False) \<and>
   handleSolverResponse z3 fp slv Z3_L_UNDEF objects values hs =
     (if Z3_solver_get_reason_unknown z3 slv = ''timeout'' \<or>
         Z3_solver_get_reason_unknown z3 slv = ''canceled''
      then Inr (SOLVER_RUN_STATUS_TIMEOUT, values, hs)
      else if Z3_solver_get_reason_unknown z3 slv = ''unknown''
      then Inr (SOLVER_RUN_STATUS_FAILURE, values, hs)
      else Inl Aborted)"
  by (simp add: handleSolverResponse_def undefStatus_def)

lemma optimize_sat_none:
  "handleOptimizeResponse z3 fp opt Z3_L_TRUE None infinity None epsilon hs =
     Inr (SOLVER_RUN_STATUS_SUCCESS_SOLVABLE, infinity, None, epsilon, True)"
  by (simp add: handleOptimizeResponse_def)

lemma optimize_sat_decodable:
  assumes all: "\<forall>idx<length objs. boundDecodable z3 opt idx"
  shows "\<exists>ds'. handleOptimizeResponse z3 fp opt Z3_L_TRUE (Some objs) infinity (Some ds)
                 epsilon hs =
               Inr (SOLVER_RUN_STATUS_SUCCESS_SOLVABLE, infinity, Some ds', epsilon, True) \<and>
             length ds' = length ds + length objs"
proof -
  from all have "\<forall>idx\<in>set [0..<length objs]. boundDecodable z3 opt idx" by simp
  from optimizeValues_decodable [OF this, of fp ds] obtain ds'
    where "optimizeValues z3 fp opt [0..<length objs] ds = Inr ds'"
      "length ds' = length ds + length objs"
    by auto
  then show ?thesis by (simp add: handleOptimizeResponse_def)
qed

lemma optimize_sat_abort:
  assumes "(objects = None \<and> ovalues \<noteq> None) \<or> (objects \<noteq> None \<and> ovalues = None) \<or>
           (objects = Some objs \<and> ovalues = Some ds \<and>
            (\<exists>idx<length objs. \<not> boundDecodable z3 opt idx))"
  shows "(\<exists>msg. handleOptimizeResponse z3 fp opt Z3_L_TRUE objects infinity ovalues epsilon hs =
                Inl (AssertionFailed msg)) \<or>
         handleOptimizeResponse z3 fp opt Z3_L_TRUE objects infinity ovalues epsilon hs =
           Inl OutOfRange"
proof -
  consider "objects = None \<and> ovalues \<noteq> None" | "objects \<noteq> None \<and> ovalues = None"
    | "objects = Some objs \<and> ovalues = Some ds \<and>
       (\<exists>idx<length objs. \<not> boundDecodable z3 opt idx)"
    using assms by blast
  then show ?thesis
  proof cases
    case 1
    then show ?thesis by (auto simp: handleOptimizeResponse_def)
  next
    case 2
    then show ?thesis by (auto simp: handleOptimizeResponse_def)
  next
    case 3
    then have "\<exists>idx\<in>set [0..<length objs]. \<not> boundDecodable z3 opt idx" by auto
    from optimizeValues_abort [OF this, of fp ds] 3 show ?thesis
      by (auto simp: handleOptimizeResponse_def)
  qed
qed

lemma optimize_sat_status:
  "handleOptimizeResponse z3 fp opt Z3_L_TRUE objects infinity ovalues epsilon hs =
     Inr (status, inf', ds', eps', hs') \<Longrightarrow>
   status = SOLVER_RUN_STATUS_SUCCESS_SOLVABLE \<and> hs' = True"
  by (auto simp: handleOptimizeResponse_def split: option.splits sum.splits)

lemma optimize_unsat_undef:
  "handleOptimizeResponse z3 fp opt Z3_L_FALSE objects infinity ovalues epsilon hs =
     Inr (SOLVER_RUN_STATUS_SUCCESS_UNSOLVABLE, infinity, ovalues, epsilon, False) \<and>
   handleOptimizeResponse z3 fp opt Z3_L_UNDEF objects infinity ovalues epsilon hs =
     (if Z3_optimize_get_reason_unknown z3 opt = ''timeout'' \<or>
         Z3_optimize_get_reason_unknown z3 opt = ''canceled''
      then Inr (SOLVER_RUN_STATUS_TIMEOUT, infinity, ovalues, epsilon, hs)
      else if Z3_optimize_get_reason_unknown z3 opt = ''unknown''
      then Inr (SOLVER_RUN_STATUS_FAILURE, infinity, ovalues, epsilon, hs)
      else Inl Aborted)"
  by (simp add: handleOptimizeResponse_def undefStatus_def)

lemma double_of_minus_1: "ieee754_double_of_int (- 1) = 0xBFF0000000000000"
  by code_simp

lemma double_of_3: "ieee754_double_of_int 3 = 0x4008000000000000"
  by code_simp

lemma minus_1_over_3:
  "ieee754_double_div 0xBFF0000000000000 0x4008000000000000 = 0xBFD5555555555555"
  by (simp add: ieee754_double_div_def Let_def)

lemma minus_third_bytes:
  "uint64Bytes 8 0xBFD5555555555555 = [85, 85, 85, 85, 85, 85, 213, 191]"
  by code_simp

lemma handleOptimizeResponse_vectors:
  "handleOptimizeResponse z3 fp theSolver satisfiable objects infinity values epsilon hasSolution =
     Inr (status, infinity', values', epsilon', hasSolution') \<Longrightarrow>
   infinity' = infinity \<and> epsilon' = epsilon"
  by (auto simp: handleOptimizeResponse_def split: Z3_lbool.splits option.splits sum.splits)

subsection \<open>The claims on the solver front end\<close>

text \<open>
  C2 on the code. The optimizer that \<open>internalRunOptimize\<close> checks holds the query's
  constraints and one maximize objective per array, and nothing else: the negated goal is
  not among its assertions (it is among those of \<open>internalRunSolver\<close>), and
  \<open>computeOptimalValues\<close> answers the same whatever the goal of the query is.
\<close>

theorem optimize_session_without_goal:
  "optimize_assertions (optimizeSession query objs) = map construct (constraints query) \<and>
   optimize_objectives (optimizeSession query objs) =
     map (\<lambda>array. buildReal (name array)) objs \<and>
   Z3_mk_not (construct (expr query)) \<notin>
     set (optimize_assertions (optimizeSession query objs)) \<and>
   Z3_mk_not (construct (expr query)) \<in> set (solver_assertions (solverSession query)) \<and>
   computeOptimalValues z3 fp impl (query\<lparr>expr := goal\<rparr>) objs infinity values epsilon
       hasSolution =
     computeOptimalValues z3 fp impl query objs infinity values epsilon hasSolution"
  by (auto simp: optimizeSession_def solverSession_def computeOptimalValues_def
        internalRunOptimize_def)

text \<open>
  C3 at the integer numeral 42. The bytes that \<open>handleSolverResponse\<close> produces are the
  eight low bytes of the \<open>int\<close> itself, \<open>42, 0, 0, 0, 0, 0, 0, 0\<close>; the little-endian
  bytes of the double 42.0 are \<open>0, 0, 0, 0, 0, 0, 0x45, 0x40\<close>.
\<close>

theorem integer_numeral_raw_bytes:
  "handleSolverResponse (satBackend (Some 42)) fp theSolver Z3_L_TRUE (Some [arrayX]) (Some [])
       hasSolution =
     Inr (SOLVER_RUN_STATUS_SUCCESS_SOLVABLE, Some [[42, 0, 0, 0, 0, 0, 0, 0]], True) \<and>
   uint64Bytes 8 (ieee754_double_of_int 42) = [0, 0, 0, 0, 0, 0, 69, 64] \<and>
   intBytes 8 42 \<noteq> uint64Bytes 8 (ieee754_double_of_int 42)"
  by (simp add: handleSolverResponse_def arrayData_def satBackend_def intBytes_42
        double_42_bytes)

text \<open>
  C5 at one requested array and a satisfiable check, with empty output vectors:
  \<open>computeOptimalValues\<close> returns one bound value, and the infinity and epsilon vectors
  are still empty. \<open>handleOptimizeResponse\<close> never writes to either vector.
\<close>

theorem optimize_leaves_infinity_epsilon:
  "computeOptimalValues (satBackend (Some 42)) fp freshImpl falseQuery [arrayX] [] [] [] False =
     Inr (True, [], Some [int_to_double fp 42], [], True,
          \<lparr> runStatusCode = SOLVER_RUN_STATUS_SUCCESS_SOLVABLE,
            stats = \<lparr> queries = 1, queryCounterexamples = 1, queriesValid = 0,
                      queriesInvalid = 1 \<rparr> \<rparr>) \<and>
   (case handleOptimizeResponse z3 fp theSolver satisfiable objects infinity values epsilon
           hasSolution of
      Inl f \<Rightarrow> True
    | Inr (status, infinity', values', epsilon', hasSolution') \<Rightarrow>
        infinity' = infinity \<and> epsilon' = epsilon)"
  by (simp add: satBackend_def handleOptimizeResponse_def upperBoundResult_def
        Z3_ast_vector_get_def computeOptimalValues_def internalRunOptimize_def freshImpl_def
        countQuery_def finishQuery_def Let_def
        split: Z3_lbool.splits option.splits sum.splits)

text \<open>
  C7, as amended. In both handlers a \<open>sat\<close> answer gives the Solvable status with
  \<open>hasSolution\<close> true when no values are asked for (\<open>objects\<close> and \<open>values\<close> both
  null), and when they are asked for and every value decodes: for the satisfiability
  check the model exists and evaluates each array to a numeral from which an integer, or
  an integer numerator and denominator, can be extracted; for the optimization check each
  objective's upper-bound vector has its three entries and such an extraction succeeds on
  the bound. In every other case the handler aborts: on the failed assertion, or in the
  optimization handler on the index error of a vector that is too short. A handler that
  returns on \<open>sat\<close> returns nothing but Solvable. An \<open>unsat\<close> answer gives Unsolvable
  with \<open>hasSolution\<close> false and the values untouched. An \<open>undef\<close> answer gives Timeout
  for the reasons "timeout" and "canceled", Failure for "unknown", and aborts for any
  other reason.
\<close>

theorem response_mapping:
  "(handleSolverResponse z3 fp slv Z3_L_TRUE None None hs =
      Inr (SOLVER_RUN_STATUS_SUCCESS_SOLVABLE, None, True) \<and>
    (Z3_solver_get_model z3 slv = Some m \<and> (\<forall>a\<in>set objs. valueDecodable z3 m a) \<longrightarrow>
      (\<exists>vs'. handleSolverResponse z3 fp slv Z3_L_TRUE (Some objs) (Some vs) hs =
               Inr (SOLVER_RUN_STATUS_SUCCESS_SOLVABLE, Some vs', True) \<and>
             length vs' = length vs + length objs)) \<and>
    ((objects = None \<and> values \<noteq> None) \<or> (objects \<noteq> None \<and> values = None) \<or>
     (objects = Some objs \<and> values = Some vs \<and>
      (Z3_solver_get_model z3 slv = None \<or>
       (Z3_solver_get_model z3 slv = Some m \<and>
        (\<exists>a\<in>set objs. \<not> valueDecodable z3 m a)))) \<longrightarrow>
      (\<exists>msg. handleSolverResponse z3 fp slv Z3_L_TRUE objects values hs =
               Inl (AssertionFailed msg))) \<and>
    (\<forall>status vs' hs'.
      handleSolverResponse z3 fp slv Z3_L_TRUE objects values hs = Inr (status, vs', hs') \<longrightarrow>
      status = SOLVER_RUN_STATUS_SUCCESS_SOLVABLE \<and> hs' = True) \<and>
    handleSolverResponse z3 fp slv Z3_L_FALSE objects values hs =
      Inr (SOLVER_RUN_STATUS_SUCCESS_UNSOLVABLE, values, False) \<and>
    handleSolverResponse z3 fp slv Z3_L_UNDEF objects values hs =
      (if Z3_solver_get_reason_unknown z3 slv = ''timeout'' \<or>
          Z3_solver_get_reason_unknown z3 slv = ''canceled''
       then Inr (SOLVER_RUN_STATUS_TIMEOUT, values, hs)
       else if Z3_solver_get_reason_unknown z3 slv = ''unknown''
       then Inr (SOLVER_RUN_STATUS_FAILURE, values, hs)
       else Inl Aborted)) \<and>
   (handleOptimizeResponse z3 fp opt Z3_L_TRUE None infinity None epsilon hs =
      Inr (SOLVER_RUN_STATUS_SUCCESS_SOLVABLE, infinity, None, epsilon, True) \<and>
    ((\<forall>idx<length objs. boundDecodable z3 opt idx) \<longrightarrow>
      (\<exists>ds'. handleOptimizeResponse z3 fp opt Z3_L_TRUE (Some objs) infinity (Some ds)
                 epsilon hs =
               Inr (SOLVER_RUN_STATUS_SUCCESS_SOLVABLE, infinity, Some ds', epsilon, True) \<and>
             length ds' = length ds + length objs)) \<and>
    ((objects = None \<and> ovalues \<noteq> None) \<or> (objects \<noteq> None \<and> ovalues = None) \<or>
     (objects = Some objs \<and> ovalues = Some ds \<and>
      (\<exists>idx<length objs. \<not> boundDecodable z3 opt idx)) \<longrightarrow>
      (\<exists>msg. handleOptimizeResponse z3 fp opt Z3_L_TRUE objects infinity ovalues epsilon hs =
               Inl (AssertionFailed msg)) \<or>
      handleOptimizeResponse z3 fp opt Z3_L_TRUE objects infinity ovalues epsilon hs =
        Inl OutOfRange) \<and>
    (\<forall>status inf' ds' eps' hs'.
      handleOptimizeResponse z3 fp opt Z3_L_TRUE objects infinity ovalues epsilon hs =
        Inr (status, inf', ds', eps', hs') \<longrightarrow>
      status = SOLVER_RUN_STATUS_SUCCESS_SOLVABLE \<and> hs' = True) \<and>
    handleOptimizeResponse z3 fp opt Z3_L_FALSE objects infinity ovalues epsilon hs =
      Inr (SOLVER_RUN_STATUS_SUCCESS_UNSOLVABLE, infinity, ovalues, epsilon, False) \<and>
    handleOptimizeResponse z3 fp opt Z3_L_UNDEF objects infinity ovalues epsilon hs =
      (if Z3_optimize_get_reason_unknown z3 opt = ''timeout'' \<or>
          Z3_optimize_get_reason_unknown z3 opt = ''canceled''
       then Inr (SOLVER_RUN_STATUS_TIMEOUT, infinity, ovalues, epsilon, hs)
       else if Z3_optimize_get_reason_unknown z3 opt = ''unknown''
       then Inr (SOLVER_RUN_STATUS_FAILURE, infinity, ovalues, epsilon, hs)
       else Inl Aborted))"
proof -
  have s2: "Z3_solver_get_model z3 slv = Some m \<and> (\<forall>a\<in>set objs. valueDecodable z3 m a) \<longrightarrow>
      (\<exists>vs'. handleSolverResponse z3 fp slv Z3_L_TRUE (Some objs) (Some vs) hs =
               Inr (SOLVER_RUN_STATUS_SUCCESS_SOLVABLE, Some vs', True) \<and>
             length vs' = length vs + length objs)"
    using solver_sat_decodable [of z3 slv m objs fp vs hs] by blast
  have s3: "(objects = None \<and> values \<noteq> None) \<or> (objects \<noteq> None \<and> values = None) \<or>
     (objects = Some objs \<and> values = Some vs \<and>
      (Z3_solver_get_model z3 slv = None \<or>
       (Z3_solver_get_model z3 slv = Some m \<and>
        (\<exists>a\<in>set objs. \<not> valueDecodable z3 m a)))) \<longrightarrow>
      (\<exists>msg. handleSolverResponse z3 fp slv Z3_L_TRUE objects values hs =
               Inl (AssertionFailed msg))"
    using solver_sat_abort [of objects "values" objs vs z3 slv m fp hs] by blast
  have s4: "\<forall>status vs' hs'.
      handleSolverResponse z3 fp slv Z3_L_TRUE objects values hs = Inr (status, vs', hs') \<longrightarrow>
      status = SOLVER_RUN_STATUS_SUCCESS_SOLVABLE \<and> hs' = True"
    using solver_sat_status by blast
  have o2: "(\<forall>idx<length objs. boundDecodable z3 opt idx) \<longrightarrow>
      (\<exists>ds'. handleOptimizeResponse z3 fp opt Z3_L_TRUE (Some objs) infinity (Some ds)
                 epsilon hs =
               Inr (SOLVER_RUN_STATUS_SUCCESS_SOLVABLE, infinity, Some ds', epsilon, True) \<and>
             length ds' = length ds + length objs)"
    using optimize_sat_decodable [of objs z3 opt fp infinity ds epsilon hs] by blast
  have o3: "(objects = None \<and> ovalues \<noteq> None) \<or> (objects \<noteq> None \<and> ovalues = None) \<or>
     (objects = Some objs \<and> ovalues = Some ds \<and>
      (\<exists>idx<length objs. \<not> boundDecodable z3 opt idx)) \<longrightarrow>
      (\<exists>msg. handleOptimizeResponse z3 fp opt Z3_L_TRUE objects infinity ovalues epsilon hs =
               Inl (AssertionFailed msg)) \<or>
      handleOptimizeResponse z3 fp opt Z3_L_TRUE objects infinity ovalues epsilon hs =
        Inl OutOfRange"
    using optimize_sat_abort [of objects ovalues objs ds z3 opt fp infinity epsilon hs] by blast
  have o4: "\<forall>status inf' ds' eps' hs'.
      handleOptimizeResponse z3 fp opt Z3_L_TRUE objects infinity ovalues epsilon hs =
        Inr (status, inf', ds', eps', hs') \<longrightarrow>
      status = SOLVER_RUN_STATUS_SUCCESS_SOLVABLE \<and> hs' = True"
    using optimize_sat_status by blast
  show ?thesis
    using solver_sat_none [of z3 fp slv hs] s2 s3 s4
          solver_unsat_undef [of z3 fp slv objects "values" hs]
          optimize_sat_none [of z3 fp opt infinity epsilon hs] o2 o3 o4
          optimize_unsat_undef [of z3 fp opt objects infinity ovalues epsilon hs]
    by (intro conjI) (simp_all only:)
qed

theorem response_mapping_witness:
  "Z3_solver_get_model (satBackend (Some 42)) (solverSession falseQuery) = Some 0 \<and>
   valueDecodable (satBackend (Some 42)) 0 arrayX \<and>
   boundDecodable (satBackend (Some 42)) (optimizeSession falseQuery [arrayX]) 0 \<and>
   handleSolverResponse (satBackend (Some 42)) ieeeFloatOps (solverSession falseQuery)
       Z3_L_TRUE (Some [arrayX]) (Some []) False =
     Inr (SOLVER_RUN_STATUS_SUCCESS_SOLVABLE, Some [[42, 0, 0, 0, 0, 0, 0, 0]], True) \<and>
   handleOptimizeResponse (satBackend (Some 42)) ieeeFloatOps
       (optimizeSession falseQuery [arrayX]) Z3_L_TRUE (Some [arrayX]) [] (Some []) [] False =
     Inr (SOLVER_RUN_STATUS_SUCCESS_SOLVABLE, [], Some [int_to_double ieeeFloatOps 42], [],
          True) \<and>
   valueDecodable (rationalBackend (- 1) 3) 0 arrayX \<and>
   handleSolverResponse (rationalBackend (- 1) 3) ieeeFloatOps (solverSession falseQuery)
       Z3_L_TRUE (Some [arrayX]) (Some []) False =
     Inr (SOLVER_RUN_STATUS_SUCCESS_SOLVABLE, Some [[85, 85, 85, 85, 85, 85, 213, 191]],
          True) \<and>
   handleOptimizeResponse (rationalBackend (- 1) 3) ieeeFloatOps
       (optimizeSession falseQuery [arrayX]) Z3_L_TRUE (Some [arrayX]) [] (Some []) [] False =
     Inr (SOLVER_RUN_STATUS_SUCCESS_SOLVABLE, [], Some [0xBFD5555555555555], [], True) \<and>
   \<not> valueDecodable (satBackend None) 0 arrayX \<and>
   \<not> boundDecodable (satBackend None) (optimizeSession falseQuery [arrayX]) 0 \<and>
   handleSolverResponse (satBackend None) ieeeFloatOps (solverSession falseQuery) Z3_L_TRUE
       (Some [arrayX]) (Some []) False =
     Inl (AssertionFailed ''failed to get value back'') \<and>
   handleSolverResponse (satBackend (Some 42)) ieeeFloatOps (solverSession falseQuery)
       Z3_L_TRUE None None False =
     Inr (SOLVER_RUN_STATUS_SUCCESS_SOLVABLE, None, True) \<and>
   handleSolverResponse (replyBackend Z3_L_FALSE []) ieeeFloatOps (solverSession falseQuery)
       Z3_L_FALSE (Some [arrayX]) (Some []) True =
     Inr (SOLVER_RUN_STATUS_SUCCESS_UNSOLVABLE, Some [], False) \<and>
   handleSolverResponse (replyBackend Z3_L_UNDEF ''timeout'') ieeeFloatOps
       (solverSession falseQuery) Z3_L_UNDEF (Some [arrayX]) (Some []) False =
     Inr (SOLVER_RUN_STATUS_TIMEOUT, Some [], False) \<and>
   handleOptimizeResponse (replyBackend Z3_L_UNDEF ''canceled'') ieeeFloatOps
       (optimizeSession falseQuery [arrayX]) Z3_L_UNDEF (Some [arrayX]) [] (Some []) [] False =
     Inr (SOLVER_RUN_STATUS_TIMEOUT, [], Some [], [], False) \<and>
   handleOptimizeResponse (replyBackend Z3_L_UNDEF ''unknown'') ieeeFloatOps
       (optimizeSession falseQuery [arrayX]) Z3_L_UNDEF (Some [arrayX]) [] (Some []) [] False =
     Inr (SOLVER_RUN_STATUS_FAILURE, [], Some [], [], False) \<and>
   handleSolverResponse (replyBackend Z3_L_UNDEF ''interrupted'') ieeeFloatOps
       (solverSession falseQuery) Z3_L_UNDEF (Some [arrayX]) (Some []) False =
     Inl Aborted"
  using response_mapping [of "satBackend (Some 42)" ieeeFloatOps "solverSession falseQuery"
          False 0 "[arrayX]" "[]" "Some [arrayX]" "Some []"
          "optimizeSession falseQuery [arrayX]" "[]" "[]" "[]" "Some []"]
        response_mapping [of "rationalBackend (- 1) 3" ieeeFloatOps "solverSession falseQuery"
          False 0 "[arrayX]" "[]" "Some [arrayX]" "Some []"
          "optimizeSession falseQuery [arrayX]" "[]" "[]" "[]" "Some []"]
        response_mapping [of "satBackend None" ieeeFloatOps "solverSession falseQuery"
          False 0 "[arrayX]" "[]" "Some [arrayX]" "Some []"
          "optimizeSession falseQuery [arrayX]" "[]" "[]" "[]" "Some []"]
        response_mapping [of "replyBackend Z3_L_UNDEF ''timeout''" ieeeFloatOps
          "solverSession falseQuery" False 0 "[arrayX]" "[]" "Some [arrayX]" "Some []"
          "optimizeSession falseQuery [arrayX]" "[]" "[]" "[]" "Some []"]
  by (simp add: satBackend_def replyBackend_def rationalBackend_def ieeeFloatOps_def
        handleSolverResponse_def handleOptimizeResponse_def arrayData_def upperBoundResult_def
        Z3_ast_vector_get_def rationalResult_def undefStatus_def valueDecodable_def
        boundDecodable_def numeralExtractable_def intBytes_42 double_of_minus_1 double_of_3
        minus_1_over_3 minus_third_bytes)

text \<open>
  C7 as stated fails on a \<open>sat\<close> answer whose numeral yields no machine integer, neither
  itself nor its numerator and denominator: both handlers abort on their assertion.
\<close>

theorem sat_without_int_counterexample:
  "handleSolverResponse (satBackend None) ieeeFloatOps (solverSession falseQuery) Z3_L_TRUE
       (Some [arrayX]) (Some []) False =
     Inl (AssertionFailed ''failed to get value back'') \<and>
   handleOptimizeResponse (satBackend None) ieeeFloatOps (optimizeSession falseQuery [arrayX])
       Z3_L_TRUE (Some [arrayX]) [] (Some []) [] False =
     Inl (AssertionFailed ''failed to get value back'')"
  by (simp add: satBackend_def handleSolverResponse_def handleOptimizeResponse_def
        arrayData_def upperBoundResult_def Z3_ast_vector_get_def rationalResult_def)


end
